theory Spec2Isabelle
  imports Main "HOL-Library.Word"
begin

unbundle bit_operations_syntax

section \<open>The control-channel client of \<^verbatim>\<open>rest/client.go\<close>\<close>

text \<open>
  A shallow embedding of package \<^verbatim>\<open>rest\<close>. Every method of \<^verbatim>\<open>Client\<close> becomes a function
  that takes the client value and returns the diagnostics and external calls it made (a list
  of events, oldest first), the updated client where the method mutates it, and the Go
  error (\<open>None\<close> is \<^verbatim>\<open>nil\<close>). Everything outside the package (operating system, network,
  JSON codec, the request types' \<^verbatim>\<open>Check\<close> methods, which live in other files) is collected in
  a record of functions, \<open>env\<close>, over which all theorems are universally quantified.
\<close>

subsection \<open>Errors, events and data\<close>

type_synonym byte = "8 word"

text \<open>\<^verbatim>\<open>net.IP\<close> is a byte slice; a \<^verbatim>\<open>nil\<close> slice or pointer is \<open>None\<close> throughout.\<close>

type_synonym IP = "byte list"

datatype error =
    ErrAppUpdateRequired
  | ErrHttpStatusBad
  | ErrBadPin
  | ErrorString string
  | CorruptInputError nat
  | OpError string string error
  | External string
  | Panic string

text \<open>
  \<open>ErrorString s\<close> is \<^verbatim>\<open>errors.New( s )\<close>; \<open>CorruptInputError\<close> is the error of
  \<^verbatim>\<open>encoding/base64\<close>; \<open>OpError op net e\<close> is the \<^verbatim>\<open>*net.OpError\<close> in which the dialer wraps \<open>e\<close>;
  \<open>External\<close> is any error value made outside the package; \<open>Panic\<close> is a run-time panic.
\<close>

record TCPAddr =
  IP :: IP
  Port :: int

datatype arg = S string | E error | N int | A IP

datatype event =
    Println "arg list"
  | LookupIPAddrCall string
  | SetsockoptCall int
  | ConnectCall string string
  | DoCall string string
  | WriteFileCall string string

text \<open>
  \<open>Println\<close> is a line of diagnostics with its operands; \<open>LookupIPAddrCall host\<close> is a DNS
  query through the resolver; \<open>SetsockoptCall mark\<close> is the \<^verbatim>\<open>SO_MARK\<close> system call;
  \<open>ConnectCall network addr\<close> is the connection attempt of the dialer; \<open>DoCall url body\<close> is
  the HTTP request handed to \<^verbatim>\<open>http.Client.Do\<close>; \<open>WriteFileCall path content\<close> is a file write.
\<close>

record 'f Config =
  APIVersion :: string
  Host :: string
  Port :: int
  Domain :: string
  AccessTokenFile :: string
  Username :: string
  Password :: string
  RestTimeout :: int
  ReconnectWait :: int
  AccessTokenUpdateDelay :: int
  CA :: string
  FirewallMark :: int
  DnsServers :: string
  Filter :: 'f

text \<open>
  Of \<^verbatim>\<open>client\<close>, \<^verbatim>\<open>transport\<close> and \<^verbatim>\<open>resolver\<close> the client keeps what the methods read or
  write: the TLS server name and the root pool of \<^verbatim>\<open>transport.TLSClientConfig\<close>. The pin table
  is a Go map: an association list whose order stands for the (unspecified) iteration order.
\<close>

record 'f Client =
  Config :: "'f Config"
  ServerName :: string
  RootCAs :: "string option"
  dnsServers :: "string list"
  remote :: "TCPAddr option"
  accessToken :: "byte list option"
  authorizedPins :: "(string \<times> string) list"

record IPAddr =
  IP :: "IP option"
  Zone :: string

record Response =
  StatusCode :: int
  ReadAll :: "string \<times> error option"

text \<open>
  The request types are declared in other files of the package; the literals in
  \<^verbatim>\<open>client.go\<close> give the fields: host, domain, access token and public key; host, domain and
  session token; host, domain, access token, user name and password.
\<close>

datatype ConnectRequest = ConnectRequest string string "byte list option" "byte list"

datatype DisconnectRequest = DisconnectRequest string string "byte list option"

datatype AccessTokenRequest = AccessTokenRequest string string "byte list option" string string

datatype 'f object =
    OConnect ConnectRequest
  | ODisconnect DisconnectRequest
  | OAccessToken AccessTokenRequest
  | OFilter 'f

record ('f, 'r) env =
  ParseIP :: "string \<Rightarrow> IP option"
  LookupIPAddr :: "string \<Rightarrow> error + IPAddr list"
  AddrString :: "TCPAddr \<Rightarrow> string"
  Socket :: "string \<Rightarrow> string \<Rightarrow> error option"
  SetsockoptInt :: "int \<Rightarrow> error option"
  Connect_fd :: "string \<Rightarrow> string \<Rightarrow> error + nat"
  Intn :: "nat \<Rightarrow> nat"
  ReadFile :: "string \<Rightarrow> error + string"
  WriteFile :: "string \<Rightarrow> string \<Rightarrow> error option"
  AppendCertsFromPEM :: "string \<Rightarrow> bool"
  MarshalIndent :: "'f object \<Rightarrow> error + string"
  NewRequestWithContext :: "string \<Rightarrow> string \<Rightarrow> error option"
  Do :: "string \<Rightarrow> string \<Rightarrow> error + Response"
  UnmarshalString :: "string \<Rightarrow> error + string"
  UnmarshalConnectResponse :: "string \<Rightarrow> 'r \<times> error option"
  CheckConnect :: "ConnectRequest \<Rightarrow> error option"
  CheckDisconnect :: "DisconnectRequest \<Rightarrow> error option"
  CheckAccessToken :: "AccessTokenRequest \<Rightarrow> error option"
  CheckFilter :: "'f \<Rightarrow> error option"

subsection \<open>Functions of the Go standard library\<close>

text \<open>\<^verbatim>\<open>strings.TrimSuffix\<close>, \<^verbatim>\<open>strings.Split\<close> on a one-character separator, and
  \<^verbatim>\<open>strings.TrimSpace\<close> on ASCII text (space, tab, line feed, vertical tab, form feed,
  carriage return).\<close>

definition TrimSuffix :: "string \<Rightarrow> string \<Rightarrow> string" where
  "TrimSuffix s suffix =
     (if length suffix \<le> length s \<and> drop (length s - length suffix) s = suffix
      then take (length s - length suffix) s else s)"

fun Split :: "string \<Rightarrow> char \<Rightarrow> string list" where
  "Split [] sep = [[]]"
| "Split (c # cs) sep =
     (if c = sep then [] # Split cs sep
      else (case Split cs sep of [] \<Rightarrow> [[c]] | w # ws \<Rightarrow> (c # w) # ws))"

definition isSpace :: "char \<Rightarrow> bool" where
  "isSpace c = (c \<in> set [CHR '' '', CHR 0x09, CHR 0x0A, CHR 0x0B, CHR 0x0C, CHR 0x0D])"

definition TrimSpace :: "string \<Rightarrow> string" where
  "TrimSpace s = rev (dropWhile isSpace (rev (dropWhile isSpace s)))"

text \<open>
  \<^verbatim>\<open>base64.StdEncoding\<close>: the standard alphabet with \<^verbatim>\<open>=\<close> padding. \<open>DecodeString\<close> follows
  \<^verbatim>\<open>Encoding.Decode\<close> and \<^verbatim>\<open>decodeQuantum\<close>: four characters make three bytes, line feed and
  carriage return are skipped, and on malformed input the bytes decoded so far are returned
  together with the error and the offset of the offending character. \<open>dbuf\<close> holds the
  six-bit values of the quantum being read, \<open>dst\<close> the bytes written, \<open>si\<close> the offset of
  the next character. The slice that \<^verbatim>\<open>DecodeString\<close> returns is cut from a buffer it
  allocates, so it is never \<^verbatim>\<open>nil\<close>, also when the error is set.
\<close>

definition encodeStd :: string where
  "encodeStd = ''ABCDEFGHIJKLMNOPQRSTUVWXYZabcdefghijklmnopqrstuvwxyz0123456789+/''"

fun position :: "char \<Rightarrow> string \<Rightarrow> nat option" where
  "position c [] = None"
| "position c (x # xs) = (if c = x then Some 0 else map_option Suc (position c xs))"

definition decodeMap :: "char \<Rightarrow> nat option" where
  "decodeMap c = position c encodeStd"

definition isNewline :: "char \<Rightarrow> bool" where
  "isNewline c = (c = CHR 0x0A \<or> c = CHR 0x0D)"

definition assemble :: "nat list \<Rightarrow> byte list" where
  "assemble dbuf =
     (let d = dbuf @ replicate (4 - length dbuf) 0;
          val = d ! 0 * 262144 + d ! 1 * 4096 + d ! 2 * 64 + d ! 3
      in take (length dbuf - 1) [of_nat (val div 65536), of_nat (val div 256), of_nat val])"

definition finish :: "nat list \<Rightarrow> byte list \<Rightarrow> nat \<Rightarrow> string \<Rightarrow> byte list \<times> error option" where
  "finish dbuf dst si src =
     (let nl = takeWhile isNewline src in
      (dst @ assemble dbuf,
       if dropWhile isNewline src \<noteq> [] then Some (CorruptInputError (si + length nl)) else None))"

fun decode :: "nat list \<Rightarrow> byte list \<Rightarrow> nat \<Rightarrow> string \<Rightarrow> byte list \<times> error option" where
  "decode dbuf dst si [] =
     (if dbuf = [] then (dst, None)
      else (dst, Some (CorruptInputError (si - length dbuf))))"
| "decode dbuf dst si (c # src) =
     (case decodeMap c of
        Some out \<Rightarrow>
          (if length dbuf = 3 then decode [] (dst @ assemble (dbuf @ [out])) (si + 1) src
           else decode (dbuf @ [out]) dst (si + 1) src)
      | None \<Rightarrow>
          (if isNewline c then decode dbuf dst (si + 1) src
           else if c \<noteq> CHR ''='' then (dst, Some (CorruptInputError si))
           else if length dbuf < 2 then (dst, Some (CorruptInputError si))
           else if length dbuf = 2 then
             (let nl = takeWhile isNewline src in
              case dropWhile isNewline src of
                [] \<Rightarrow> (dst, Some (CorruptInputError (si + 1 + length src)))
              | p # rest \<Rightarrow>
                  (if p \<noteq> CHR ''='' then (dst, Some (CorruptInputError (si + length nl)))
                   else finish dbuf dst (si + length nl + 2) rest))
           else finish dbuf dst (si + 1) src))"

definition DecodeString :: "string \<Rightarrow> byte list \<times> error option" where
  "DecodeString s = decode [] [] 0 s"

fun EncodeToString :: "byte list \<Rightarrow> string" where
  "EncodeToString (a # b # c # rest) =
     (let val = unat a * 65536 + unat b * 256 + unat c in
      [encodeStd ! (val div 262144), encodeStd ! (val div 4096 mod 64),
       encodeStd ! (val div 64 mod 64), encodeStd ! (val mod 64)] @ EncodeToString rest)"
| "EncodeToString [a, b] =
     (let val = unat a * 65536 + unat b * 256 in
      [encodeStd ! (val div 262144), encodeStd ! (val div 4096 mod 64),
       encodeStd ! (val div 64 mod 64), CHR ''=''])"
| "EncodeToString [a] =
     (let val = unat a * 65536 in
      [encodeStd ! (val div 262144), encodeStd ! (val div 4096 mod 64), CHR ''='', CHR ''=''])"
| "EncodeToString [] = []"

text \<open>
  \<^verbatim>\<open>sha256.Sum256\<close> (FIPS 180-4) on 32-bit words: the message is padded to a multiple of 64
  bytes, each block is expanded to 64 words and run through 64 rounds. \<open>K256\<close> holds the
  first 32 bits of the fractional parts of the cube roots of the first 64 primes, \<open>H256\<close>
  those of the square roots of the first 8.
\<close>

definition K256 :: "32 word list" where
  "K256 = [1116352408, 1899447441, 3049323471, 3921009573, 961987163, 1508970993,
           2453635748, 2870763221, 3624381080, 310598401, 607225278, 1426881987,
           1925078388, 2162078206, 2614888103, 3248222580, 3835390401, 4022224774,
           264347078, 604807628, 770255983, 1249150122, 1555081692, 1996064986,
           2554220882, 2821834349, 2952996808, 3210313671, 3336571891, 3584528711,
           113926993, 338241895, 666307205, 773529912, 1294757372, 1396182291,
           1695183700, 1986661051, 2177026350, 2456956037, 2730485921, 2820302411,
           3259730800, 3345764771, 3516065817, 3600352804, 4094571909, 275423344,
           430227734, 506948616, 659060556, 883997877, 958139571, 1322822218,
           1537002063, 1747873779, 1955562222, 2024104815, 2227730452, 2361852424,
           2428436474, 2756734187, 3204031479, 3329325298]"

definition H256 :: "32 word list" where
  "H256 = [1779033703, 3144134277, 1013904242, 2773480762,
           1359893119, 2600822924, 528734635, 1541459225]"

definition Ch :: "32 word \<Rightarrow> 32 word \<Rightarrow> 32 word \<Rightarrow> 32 word" where
  "Ch x y z = (x AND y) XOR (NOT x AND z)"

definition Maj :: "32 word \<Rightarrow> 32 word \<Rightarrow> 32 word \<Rightarrow> 32 word" where
  "Maj x y z = (x AND y) XOR (x AND z) XOR (y AND z)"

definition Sigma0 :: "32 word \<Rightarrow> 32 word" where
  "Sigma0 x = word_rotr 2 x XOR word_rotr 13 x XOR word_rotr 22 x"

definition Sigma1 :: "32 word \<Rightarrow> 32 word" where
  "Sigma1 x = word_rotr 6 x XOR word_rotr 11 x XOR word_rotr 25 x"

definition sigma0 :: "32 word \<Rightarrow> 32 word" where
  "sigma0 x = word_rotr 7 x XOR word_rotr 18 x XOR drop_bit 3 x"

definition sigma1 :: "32 word \<Rightarrow> 32 word" where
  "sigma1 x = word_rotr 17 x XOR word_rotr 19 x XOR drop_bit 10 x"

fun be32 :: "byte list \<Rightarrow> 32 word list" where
  "be32 (a # b # c # d # rest) =
     (push_bit 24 (ucast a) OR push_bit 16 (ucast b) OR push_bit 8 (ucast c) OR ucast d) # be32 rest"
| "be32 _ = []"

text \<open>The window \<open>w\<close> of the message schedule holds the last sixteen words, oldest first.\<close>

fun schedule :: "nat \<Rightarrow> 32 word list \<Rightarrow> 32 word list" where
  "schedule 0 w = []"
| "schedule (Suc n) w =
     (let x = sigma1 (w ! 14) + w ! 9 + sigma0 (w ! 1) + w ! 0
      in x # schedule n (tl w @ [x]))"

fun rounds :: "32 word list \<Rightarrow> 32 word list \<Rightarrow> 32 word list \<Rightarrow> 32 word list" where
  "rounds (k # ks) (w # ws) [a, b, c, d, e, f, g, h] =
     (let t1 = h + Sigma1 e + Ch e f g + k + w;
          t2 = Sigma0 a + Maj a b c
      in rounds ks ws [t1 + t2, a, b, c, d + t1, e, f, g])"
| "rounds _ _ s = s"

definition block :: "32 word list \<Rightarrow> byte list \<Rightarrow> 32 word list" where
  "block s p = (let w = be32 p in map2 (+) s (rounds K256 (w @ schedule 48 w) s))"

definition chunks :: "byte list \<Rightarrow> byte list list" where
  "chunks p = map (\<lambda>i. take 64 (drop (64 * i) p)) [0..<length p div 64]"

definition pad :: "byte list \<Rightarrow> byte list" where
  "pad m =
     (let l = length m; z = (119 - l mod 64) mod 64 in
      m @ [0x80] @ replicate z 0 @
      map (\<lambda>i. ucast (drop_bit (8 * i) (word_of_nat (8 * l) :: 64 word))) [7, 6, 5, 4, 3, 2, 1, 0])"

definition unbe32 :: "32 word \<Rightarrow> byte list" where
  "unbe32 x = [ucast (drop_bit 24 x), ucast (drop_bit 16 x), ucast (drop_bit 8 x), ucast x]"

definition Sum256 :: "byte list \<Rightarrow> byte list" where
  "Sum256 m = concat (map unbe32 (foldl block H256 (chunks (pad m))))"

subsection \<open>Resolve\<close>

text \<open>\<^verbatim>\<open>( *TCPAddr ).String\<close> answers \<^verbatim>\<open><nil>\<close> on a nil receiver.\<close>

definition TCPAddr_String :: "('f, 'r) env \<Rightarrow> TCPAddr option \<Rightarrow> string" where
  "TCPAddr_String env a = (case a of None \<Rightarrow> ''<nil>'' | Some t \<Rightarrow> AddrString env t)"

definition Resolve :: "('f, 'r) env \<Rightarrow> 'f Client \<Rightarrow> event list \<times> 'f Client \<times> error option" where
  "Resolve env c =
     (let host = Host (Config c) in
      case ParseIP env host of
        Some ip \<Rightarrow>
          ([], c\<lparr>remote := Some \<lparr>TCPAddr.IP = ip, Port = Config.Port (Config c)\<rparr>,
                  ServerName := ''hideservers.net''\<rparr>, None)
      | None \<Rightarrow>
          (case LookupIPAddr env host of
             Inl err \<Rightarrow>
               (let log = [LookupIPAddrCall host,
                           Println [S ''Resolve: [ERR]'', S host, S ''lookup failed,'', E err]] in
                if remote c \<noteq> None
                then (log @ [Println [S ''Resolve: Using previous lookup response'',
                                      S (TCPAddr_String env (remote c))]], c, None)
                else (log, c, Some err))
           | Inr addrs \<Rightarrow>
               (case addrs of
                  [] \<Rightarrow> ([LookupIPAddrCall host], c,
                         Some (ErrorString (''dns lookup failed for '' @ host)))
                | a # _ \<Rightarrow>
                    (case IPAddr.IP a of
                       None \<Rightarrow> ([LookupIPAddrCall host], c,
                                Some (ErrorString (''no IP found for '' @ host)))
                     | Some ip \<Rightarrow>
                         ([LookupIPAddrCall host,
                           Println [S ''Name: Resolved'', S host, S ''to'', A ip]],
                          c\<lparr>ServerName := host,
                            remote := Some \<lparr>TCPAddr.IP = ip, Port = Config.Port (Config c)\<rparr>\<rparr>,
                          None)))))"

subsection \<open>NewClient\<close>

definition NewClient :: "('f, 'r) env \<Rightarrow> 'f Config \<Rightarrow> error + 'f Client" where
  "NewClient env config0 =
     (let config = (if Config.Port config0 = 0 then config0\<lparr>Config.Port := 432\<rparr> else config0);
          roots =
            (if length (CA config) > 0 then
               (case ReadFile env (CA config) of
                  Inl err \<Rightarrow> Inl err
                | Inr pem \<Rightarrow>
                    if AppendCertsFromPEM env pem then Inr (Some pem)
                    else Inl (ErrorString (''Bad certificate in '' @ CA config)))
             else Inr None)
      in case roots of
           Inl err \<Rightarrow> Inl err
         | Inr pool \<Rightarrow>
             Inr \<lparr>Config = config,
                  ServerName = [],
                  RootCAs = pool,
                  dnsServers =
                    (if length (DnsServers config) > 0
                     then map TrimSpace (Split (DnsServers config) (CHR '',''))
                     else [''1.1.1.1:53'']),
                  remote = None,
                  accessToken =
                    (if length (AccessTokenFile config) > 0 then
                       (case ReadFile env (AccessTokenFile config) of
                          Inl acErr \<Rightarrow> None
                        | Inr accessTokenBytes \<Rightarrow> Some (fst (DecodeString accessTokenBytes)))
                     else None),
                  authorizedPins =
                    [(''Hide.Me Root CA'', ''AdKh8rXi68jeqv5kEzF4wJ9M2R89gFuMILRQ1uwADQI=''),
                     (''Hide.Me Server CA #1'', ''CsEyDelMHMPh9qLGgeQn8sJwdUwvc+fCMhOU9Ne5PbU=''),
                     (''DigiCert Global Root CA'', ''r/mIkG3eEpVdm+u/ko/cwxzOMo1bk4TyHIlByibiA5E=''),
                     (''DigiCert TLS RSA SHA256 2020 CA1'',
                      ''RQeZkB42znUfsDIIFWIRiYEcKl7nHwNFwWCrnMMJbVc='')]\<rparr>)"

definition Remote :: "'f Client \<Rightarrow> TCPAddr option" where
  "Remote c = remote c"

definition HaveAccessToken :: "'f Client \<Rightarrow> bool" where
  "HaveAccessToken c = (if accessToken c \<noteq> None then True else False)"

subsection \<open>Pins\<close>

text \<open>Of \<^verbatim>\<open>x509.Certificate\<close> and \<^verbatim>\<open>pkix.Name\<close>, the fields that tell certificates apart here.\<close>

record Name =
  CommonName :: string

record Certificate =
  IsCA :: bool
  RawSubjectPublicKeyInfo :: "byte list"
  Subject :: Name
  Issuer :: Name

text \<open>The innermost loop, over the pin table: is there an entry with this name and pin?\<close>

fun pinLoop :: "(string \<times> string) list \<Rightarrow> string \<Rightarrow> string \<Rightarrow> bool" where
  "pinLoop [] cn pin = False"
| "pinLoop ((name, authorizedPin) # table) cn pin =
     (if cn = name \<and> pin = authorizedPin then True else pinLoop table cn pin)"

fun chainLoop :: "'f Client \<Rightarrow> Certificate list \<Rightarrow> event list \<times> error option" where
  "chainLoop c [] = ([], None)"
| "chainLoop c (certificate # chain) =
     (if \<not> IsCA certificate then chainLoop c chain
      else
        (let sum = Sum256 (RawSubjectPublicKeyInfo certificate);
             pin = EncodeToString sum
         in if pinLoop (authorizedPins c) (CommonName (Subject certificate)) pin
            then (case chainLoop c chain of
                    (evs, r) \<Rightarrow>
                      (Println [S ''Pins:'', S (CommonName (Subject certificate)), S ''pin OK'']
                         # evs, r))
            else ([Println [S ''Pins:'', S (CommonName (Subject certificate)), S ''pin failed'']],
                  Some ErrBadPin)))"

fun Pins :: "'f Client \<Rightarrow> byte list list \<Rightarrow> Certificate list list \<Rightarrow> event list \<times> error option" where
  "Pins c rawCerts [] = ([], None)"
| "Pins c rawCerts (chain # verifiedChains) =
     (case chainLoop c chain of
        (evs, Some err) \<Rightarrow> (evs, Some err)
      | (evs, None) \<Rightarrow>
          (case Pins c rawCerts verifiedChains of (evs', r) \<Rightarrow> (evs @ evs', r)))"

subsection \<open>dialContext\<close>

text \<open>
  The closure stored in \<^verbatim>\<open>dialer.Control\<close>: the inner function assigns the result of
  \<^verbatim>\<open>SetsockoptInt\<close> to the named result \<^verbatim>\<open>err\<close> of the outer one, which the bare \<^verbatim>\<open>return\<close>
  hands back. (The result of \<^verbatim>\<open>rawConn.Control\<close> itself is dropped; the socket has just been
  created, so the inner function runs.)
\<close>

definition Control :: "('f, 'r) env \<Rightarrow> 'f Client \<Rightarrow> event list \<times> error option" where
  "Control env c =
     (let err = SetsockoptInt env (FirewallMark (Config c)) in
      (SetsockoptCall (FirewallMark (Config c)) #
         (case err of
            None \<Rightarrow> []
          | Some e \<Rightarrow> [Println [S ''Dial: [ERR] Set mark failed,'', E e]]),
       err))"

text \<open>
  \<^verbatim>\<open>( *net.Dialer ).DialContext\<close> for one destination: the socket is created, then \<^verbatim>\<open>Control\<close>
  is called if it is set, and an error it returns closes the socket and fails the dial
  (\<^verbatim>\<open>netFD.dial\<close>); only after that the socket connects. Errors come back in an \<^verbatim>\<open>OpError\<close>.
  The second argument is what \<^verbatim>\<open>Control\<close> does when it is called, \<open>None\<close> when it is not set.
\<close>

definition Dialer_DialContext ::
  "('f, 'r) env \<Rightarrow> (event list \<times> error option) option \<Rightarrow> string \<Rightarrow> string
     \<Rightarrow> event list \<times> (error + nat)" where
  "Dialer_DialContext env control network addr =
     (case Socket env network addr of
        Some err \<Rightarrow> ([], Inl (OpError ''dial'' network err))
      | None \<Rightarrow>
          (let hook = (case control of None \<Rightarrow> ([], None) | Some h \<Rightarrow> h) in
           case snd hook of
             Some err \<Rightarrow> (fst hook, Inl (OpError ''dial'' network err))
           | None \<Rightarrow>
               (fst hook @ [ConnectCall network addr],
                case Connect_fd env network addr of
                  Inl err \<Rightarrow> Inl (OpError ''dial'' network err)
                | Inr conn \<Rightarrow> Inr conn)))"

definition dialContext ::
  "('f, 'r) env \<Rightarrow> 'f Client \<Rightarrow> string \<Rightarrow> string \<Rightarrow> event list \<times> (error + nat)" where
  "dialContext env c network addr =
     (let control = (if FirewallMark (Config c) > 0 then Some (Control env c) else None) in
      if network = ''udp'' then
        (if length (dnsServers c) = 0 then ([], Inl (Panic ''invalid argument to Intn''))
         else
           (let i = Intn env (length (dnsServers c)) in
            if i < length (dnsServers c)
            then Dialer_DialContext env control network (dnsServers c ! i)
            else ([], Inl (Panic ''index out of range''))))
      else Dialer_DialContext env control network addr)"

subsection \<open>postJson and the four operations\<close>

definition postJson ::
  "('f, 'r) env \<Rightarrow> 'f Client \<Rightarrow> string \<Rightarrow> 'f object \<Rightarrow> event list \<times> string \<times> error option" where
  "postJson env c url object =
     (case MarshalIndent env object of
        Inl err \<Rightarrow> ([], [], Some err)
      | Inr body \<Rightarrow>
          (case NewRequestWithContext env ''POST'' url of
             Some err \<Rightarrow> ([], [], Some err)
           | None \<Rightarrow>
               (case Do env url body of
                  Inl err \<Rightarrow> ([DoCall url body], [], Some err)
                | Inr response \<Rightarrow>
                    if StatusCode response = 403
                    then ([DoCall url body,
                           Println [S ''Rest: [ERR] Application update required'']],
                          [], Some ErrAppUpdateRequired)
                    else if StatusCode response \<noteq> 200
                    then ([DoCall url body,
                           Println [S ''Rest: [ERR] Bad HTTP response ('',
                                    N (StatusCode response), S '')'']],
                          [], Some ErrHttpStatusBad)
                    else ([DoCall url body], fst (ReadAll response), snd (ReadAll response)))))"

text \<open>
  \<^verbatim>\<open>key\<close> is a \<^verbatim>\<open>wgtypes.Key\<close>, an array of 32 bytes, and \<^verbatim>\<open>key[:]\<close> the slice of all of it.
  On success the result is the response structure together with the error of the decoder.
\<close>

definition Connect ::
  "('f, 'r) env \<Rightarrow> 'f Client \<Rightarrow> byte list \<Rightarrow> event list \<times> 'r option \<times> error option" where
  "Connect env c key =
     (let connectRequest =
            ConnectRequest (TrimSuffix (Host (Config c)) ''.hideservers.net'')
              (Domain (Config c)) (accessToken c) key
      in case CheckConnect env connectRequest of
           Some err \<Rightarrow> ([], None, Some err)
         | None \<Rightarrow>
             (case postJson env c
                     (''https://'' @ TCPAddr_String env (remote c) @ ''/'' @
                      APIVersion (Config c) @ ''/connect'')
                     (OConnect connectRequest) of
                (evs, responseBody, Some err) \<Rightarrow> (evs, None, Some err)
              | (evs, responseBody, None) \<Rightarrow>
                  (evs, Some (fst (UnmarshalConnectResponse env responseBody)),
                   snd (UnmarshalConnectResponse env responseBody))))"

definition Disconnect ::
  "('f, 'r) env \<Rightarrow> 'f Client \<Rightarrow> byte list option \<Rightarrow> event list \<times> error option" where
  "Disconnect env c sessionToken =
     (let disconnectRequest =
            DisconnectRequest (TrimSuffix (Host (Config c)) ''.hideservers.net'')
              (Domain (Config c)) sessionToken
      in case CheckDisconnect env disconnectRequest of
           Some err \<Rightarrow> ([], Some err)
         | None \<Rightarrow>
             (case postJson env c
                     (''https://'' @ TCPAddr_String env (remote c) @ ''/'' @
                      APIVersion (Config c) @ ''/disconnect'')
                     (ODisconnect disconnectRequest) of
                (evs, responseBody, err) \<Rightarrow> (evs, err)))"

definition GetAccessToken ::
  "('f, 'r) env \<Rightarrow> 'f Client \<Rightarrow> event list \<times> 'f Client \<times> error option" where
  "GetAccessToken env c =
     (let accessTokenRequest =
            AccessTokenRequest (TrimSuffix (Host (Config c)) ''.hideservers.net'')
              (Domain (Config c)) (accessToken c) (Username (Config c)) (Password (Config c))
      in case CheckAccessToken env accessTokenRequest of
           Some err \<Rightarrow> ([], c, Some err)
         | None \<Rightarrow>
             (case postJson env c
                     (''https://'' @ TCPAddr_String env (remote c) @ ''/'' @
                      APIVersion (Config c) @ ''/accessToken'')
                     (OAccessToken accessTokenRequest) of
                (evs, accessTokenJson, Some err) \<Rightarrow> (evs, c, Some err)
              | (evs, accessTokenJson, None) \<Rightarrow>
                  (case UnmarshalString env accessTokenJson of
                     Inl err \<Rightarrow> (evs, c, Some err)
                   | Inr accessTokenString \<Rightarrow>
                       (let c' = c\<lparr>accessToken := Some (fst (DecodeString accessTokenString))\<rparr> in
                        case snd (DecodeString accessTokenString) of
                          Some err \<Rightarrow> (evs, c', Some err)
                        | None \<Rightarrow>
                            if length (AccessTokenFile (Config c)) > 0
                            then (evs @ [WriteFileCall (AccessTokenFile (Config c))
                                           accessTokenString],
                                  c',
                                  WriteFile env (AccessTokenFile (Config c)) accessTokenString)
                            else (evs, c', None)))))"

definition ApplyFilter :: "('f, 'r) env \<Rightarrow> 'f Client \<Rightarrow> event list \<times> error option" where
  "ApplyFilter env c =
     (case CheckFilter env (Filter (Config c)) of
        Some err \<Rightarrow> ([], Some err)
      | None \<Rightarrow>
          (case postJson env c ''https://vpn.hide.me:4321/filter'' (OFilter (Filter (Config c))) of
             (evs, response, err) \<Rightarrow>
               (evs, if response = ''false'' then Some (ErrorString ''filter failed'') else err)))"

subsection \<open>Validation of a connect request\<close>

text \<open>
  Modelled from the spec: \<^verbatim>\<open>ConnectRequest.Check\<close> is declared in another file of the package
  and is not part of \<^verbatim>\<open>client.go\<close>. The specification says that a request validates itself
  before it is sent and fails with a validation error if a required field (host, domain,
  key) is missing, that the access token of a connect request may be absent, and that a
  connect request with an empty public key must fail validation.
\<close>

definition ConnectRequest_Check :: "ConnectRequest \<Rightarrow> error option" where
  "ConnectRequest_Check r =
     (case r of
        ConnectRequest host domain token publicKey \<Rightarrow>
          if host = [] then Some (ErrorString ''missing host'')
          else if domain = [] then Some (ErrorString ''missing domain'')
          else if publicKey = [] then Some (ErrorString ''missing public key'')
          else None)"

subsection \<open>Example inputs\<close>

text \<open>
  A configuration, the client \<open>NewClient\<close> makes of it, and a world in which the machine is
  offline: no host name is an IP literal, every lookup, dial, request and file access fails,
  the JSON codec accepts nothing, and only the connect request is validated.
\<close>

definition example_config :: "unit Config" where
  "example_config =
     \<lparr>APIVersion = ''v1.0.0'', Host = ''nl.hideservers.net'', Port = 0, Domain = ''hide.me'',
      AccessTokenFile = ''accessToken.txt'', Username = ''user'', Password = ''secret'',
      RestTimeout = 10, ReconnectWait = 30, AccessTokenUpdateDelay = 2, CA = [],
      FirewallMark = 55555, DnsServers = [], Filter = ()\<rparr>"

definition example_client :: "unit Client" where
  "example_client =
     \<lparr>Config = example_config\<lparr>Config.Port := 432\<rparr>,
      ServerName = [],
      RootCAs = None,
      dnsServers = [''1.1.1.1:53''],
      remote = None,
      accessToken = None,
      authorizedPins =
        [(''Hide.Me Root CA'', ''AdKh8rXi68jeqv5kEzF4wJ9M2R89gFuMILRQ1uwADQI=''),
         (''Hide.Me Server CA #1'', ''CsEyDelMHMPh9qLGgeQn8sJwdUwvc+fCMhOU9Ne5PbU=''),
         (''DigiCert Global Root CA'', ''r/mIkG3eEpVdm+u/ko/cwxzOMo1bk4TyHIlByibiA5E=''),
         (''DigiCert TLS RSA SHA256 2020 CA1'',
          ''RQeZkB42znUfsDIIFWIRiYEcKl7nHwNFwWCrnMMJbVc='')]\<rparr>"

definition offline :: "(unit, unit) env" where
  "offline =
     \<lparr>ParseIP = (\<lambda>s. None),
      LookupIPAddr = (\<lambda>host. Inl (External ''no such host'')),
      AddrString = (\<lambda>a. ''198.51.100.7:432''),
      Socket = (\<lambda>network addr. None),
      SetsockoptInt = (\<lambda>mark. Some (External ''operation not permitted'')),
      Connect_fd = (\<lambda>network addr. Inl (External ''network is unreachable'')),
      Intn = (\<lambda>n. 0),
      ReadFile = (\<lambda>path. Inl (External ''no such file or directory'')),
      WriteFile = (\<lambda>path content. Some (External ''read-only file system'')),
      AppendCertsFromPEM = (\<lambda>pem. False),
      MarshalIndent = (\<lambda>object. Inr ''{}''),
      NewRequestWithContext = (\<lambda>method url. None),
      Do = (\<lambda>url body. Inl (External ''context deadline exceeded'')),
      UnmarshalString = (\<lambda>json. Inl (External ''unexpected end of JSON input'')),
      UnmarshalConnectResponse = (\<lambda>json. ((), Some (External ''unexpected end of JSON input''))),
      CheckConnect = ConnectRequest_Check,
      CheckDisconnect = (\<lambda>r. None),
      CheckAccessToken = (\<lambda>r. None),
      CheckFilter = (\<lambda>f. None)\<rparr>"

text \<open>The address 198.51.100.7, port 432, as a first resolution of the example host stores it.\<close>

definition example_remote :: TCPAddr where
  "example_remote = \<lparr>TCPAddr.IP = [198, 51, 100, 7], Port = 432\<rparr>"

text \<open>
  A world that differs from \<open>offline\<close> in that the name server answers for the example
  host, and the client after a first \<open>Resolve\<close> there.
\<close>

definition online :: "(unit, unit) env" where
  "online =
     offline\<lparr>LookupIPAddr :=
                (\<lambda>host. if host = ''nl.hideservers.net''
                        then Inr [\<lparr>IPAddr.IP = Some [198, 51, 100, 7], Zone = []\<rparr>]
                        else Inl (External ''no such host''))\<rparr>"

definition resolved_client :: "unit Client" where
  "resolved_client =
     example_client\<lparr>ServerName := ''nl.hideservers.net'', remote := Some example_remote\<rparr>"

text \<open>A configuration whose host is an IP literal, and a world that parses it.\<close>

definition literal_client :: "unit Client" where
  "literal_client =
     example_client\<lparr>Config := example_config\<lparr>Host := ''203.0.113.9'', Config.Port := 432\<rparr>\<rparr>"

definition literal_env :: "(unit, unit) env" where
  "literal_env =
     offline\<lparr>ParseIP := (\<lambda>s. if s = ''203.0.113.9'' then Some [203, 0, 113, 9] else None)\<rparr>"

text \<open>Two worlds whose name server answers without a usable address.\<close>

definition empty_answer :: "(unit, unit) env" where
  "empty_answer = offline\<lparr>LookupIPAddr := (\<lambda>host. Inr [])\<rparr>"

definition nil_answer :: "(unit, unit) env" where
  "nil_answer = offline\<lparr>LookupIPAddr := (\<lambda>host. Inr [\<lparr>IPAddr.IP = None, Zone = []\<rparr>])\<rparr>"

text \<open>A world whose server answers every request with the given response.\<close>

definition answering :: "Response \<Rightarrow> (unit, unit) env" where
  "answering response = offline\<lparr>Do := (\<lambda>url body. Inr response)\<rparr>"

text \<open>
  A world whose server answers the token request with status 200 and the JSON string
  \<^verbatim>\<open>"QUJD!"\<close>, which is not base64 (\<^verbatim>\<open>QUJD\<close> is the encoding of the three bytes 65, 66, 67), and
  a world whose credential file holds the same text.
\<close>

definition bad_token_json :: string where
  "bad_token_json = CHR 0x22 # ''QUJD!'' @ [CHR 0x22]"

definition bad_token_server :: "(unit, unit) env" where
  "bad_token_server =
     offline\<lparr>Do := (\<lambda>url body. Inr \<lparr>StatusCode = 200, ReadAll = (bad_token_json, None)\<rparr>),
             UnmarshalString :=
               (\<lambda>json. if json = bad_token_json then Inr ''QUJD!''
                       else Inl (External ''invalid character''))\<rparr>"

definition bad_token_file :: "(unit, unit) env" where
  "bad_token_file =
     offline\<lparr>ReadFile :=
               (\<lambda>path. if path = ''accessToken.txt'' then Inr ''QUJD!''
                       else Inl (External ''no such file or directory''))\<rparr>"

text \<open>A WireGuard public key: 32 bytes.\<close>

definition example_key :: "byte list" where
  "example_key = replicate 32 7"

text \<open>
  The subject public key info of the certificate \<^verbatim>\<open>DigiCert Global Root CA\<close> (294 bytes, an RSA
  key of 2048 bits), and certificates around it: the root itself, the same key certified
  by another authority (a cross-signed root: same subject and key, another issuer), a
  certificate with this key that the root issued to another subject, a certificate
  authority that is not in the table, and a server certificate.
\<close>

definition digicert_spki :: "byte list" where
  "digicert_spki =
     [48, 130, 1, 34, 48, 13, 6, 9, 42, 134, 72, 134, 247, 13, 1, 1, 1, 5,
      0, 3, 130, 1, 15, 0, 48, 130, 1, 10, 2, 130, 1, 1, 0, 226, 59, 225,
      17, 114, 222, 168, 164, 211, 163, 87, 170, 80, 162, 143, 11, 119, 144, 201, 162, 165,
      238, 18, 206, 150, 91, 1, 9, 32, 204, 1, 147, 167, 78, 48, 183, 83, 247, 67,
      196, 105, 0, 87, 157, 226, 141, 34, 221, 135, 6, 64, 0, 129, 9, 206, 206, 27,
      131, 191, 223, 205, 59, 113, 70, 226, 214, 102, 199, 5, 179, 118, 39, 22, 143, 123,
      158, 30, 149, 125, 238, 183, 72, 163, 8, 218, 214, 175, 122, 12, 57, 6, 101, 127,
      74, 93, 31, 188, 23, 248, 171, 190, 238, 40, 215, 116, 127, 122, 120, 153, 89, 133,
      104, 110, 92, 35, 50, 75, 191, 78, 192, 232, 90, 109, 227, 112, 191, 119, 16, 191,
      252, 1, 246, 133, 217, 168, 68, 16, 88, 50, 169, 117, 24, 213, 209, 162, 190, 71,
      226, 39, 106, 244, 154, 51, 248, 73, 8, 96, 139, 212, 95, 180, 58, 132, 191, 161,
      170, 74, 76, 125, 62, 207, 79, 95, 108, 118, 94, 160, 75, 55, 145, 158, 220, 34,
      230, 109, 206, 20, 26, 142, 106, 203, 254, 205, 179, 20, 100, 23, 199, 91, 41, 158,
      50, 191, 242, 238, 250, 211, 11, 66, 212, 171, 183, 65, 50, 218, 12, 212, 239, 248,
      129, 213, 187, 141, 88, 63, 181, 27, 232, 73, 40, 162, 112, 218, 49, 4, 221, 247,
      178, 22, 242, 76, 10, 78, 7, 168, 237, 74, 61, 94, 181, 127, 163, 144, 195, 175,
      39, 2, 3, 1, 0, 1]"

definition digicert_root :: Certificate where
  "digicert_root =
     \<lparr>IsCA = True, RawSubjectPublicKeyInfo = digicert_spki,
      Subject = \<lparr>CommonName = ''DigiCert Global Root CA''\<rparr>,
      Issuer = \<lparr>CommonName = ''DigiCert Global Root CA''\<rparr>\<rparr>"

definition cross_signed_root :: Certificate where
  "cross_signed_root =
     \<lparr>IsCA = True, RawSubjectPublicKeyInfo = digicert_spki,
      Subject = \<lparr>CommonName = ''DigiCert Global Root CA''\<rparr>,
      Issuer = \<lparr>CommonName = ''Cross Signing Root''\<rparr>\<rparr>"

definition issued_by_root :: Certificate where
  "issued_by_root =
     \<lparr>IsCA = True, RawSubjectPublicKeyInfo = digicert_spki,
      Subject = \<lparr>CommonName = ''Some Issuing CA''\<rparr>,
      Issuer = \<lparr>CommonName = ''DigiCert Global Root CA''\<rparr>\<rparr>"

definition rogue_ca :: Certificate where
  "rogue_ca =
     \<lparr>IsCA = True, RawSubjectPublicKeyInfo = [48, 42],
      Subject = \<lparr>CommonName = ''Rogue CA''\<rparr>,
      Issuer = \<lparr>CommonName = ''Rogue CA''\<rparr>\<rparr>"

definition server_certificate :: Certificate where
  "server_certificate =
     \<lparr>IsCA = False, RawSubjectPublicKeyInfo = [48, 89],
      Subject = \<lparr>CommonName = ''nl.hideservers.net''\<rparr>,
      Issuer = \<lparr>CommonName = ''DigiCert Global Root CA''\<rparr>\<rparr>"

section \<open>Properties\<close>

subsection \<open>The example inputs are what the code produces\<close>

lemma NewClient_example: "NewClient offline example_config = Inr example_client"
  by (simp add: NewClient_def offline_def example_config_def example_client_def)

lemma Resolve_example:
  "Resolve online example_client =
     ([LookupIPAddrCall ''nl.hideservers.net'',
       Println [S ''Name: Resolved'', S ''nl.hideservers.net'', S ''to'', A [198, 51, 100, 7]]],
      resolved_client, None)"
  by (simp add: Resolve_def Let_def online_def offline_def example_client_def
      example_config_def resolved_client_def example_remote_def)

subsection \<open>Resolve\<close>

text \<open>
  C8. Whenever the configured host parses as a literal IP address, \<open>Resolve\<close> succeeds
  without any external call (its list of events is empty, so no DNS query is made), stores
  that address with the configured port as the remote address, and sets the TLS server name
  to \<^verbatim>\<open>hideservers.net\<close>.
\<close>

theorem Resolve_literal_IP:
  assumes "ParseIP env (Host (Config c)) = Some ip"
  shows "Resolve env c =
           ([], c\<lparr>remote := Some \<lparr>TCPAddr.IP = ip, Port = Config.Port (Config c)\<rparr>,
                  ServerName := ''hideservers.net''\<rparr>, None)"
  using assms by (simp add: Resolve_def)

theorem Resolve_literal_IP_witness:
  "ParseIP literal_env (Host (Config literal_client)) = Some [203, 0, 113, 9] \<and>
   Resolve literal_env literal_client =
     ([], literal_client\<lparr>remote := Some \<lparr>TCPAddr.IP = [203, 0, 113, 9], Port = 432\<rparr>,
                         ServerName := ''hideservers.net''\<rparr>, None)"
  using Resolve_literal_IP [of literal_env literal_client "[203, 0, 113, 9]"]
  by (simp add: literal_env_def literal_client_def offline_def example_client_def
      example_config_def)

text \<open>
  C2. When the host is not an IP literal and the DNS lookup fails: if a remote address \<open>R\<close>
  is stored (by an earlier \<open>Resolve\<close>), the client is returned as it was, so the remote
  address is still \<open>R\<close>, and the error is \<^verbatim>\<open>nil\<close>; if none is stored, the error of the
  lookup is returned.
\<close>

theorem Resolve_lookup_failure:
  assumes "ParseIP env (Host (Config c)) = None"
    and "LookupIPAddr env (Host (Config c)) = Inl err"
  shows "(remote c = Some R \<longrightarrow> (\<exists>evs. Resolve env c = (evs, c, None))) \<and>
         (remote c = None \<longrightarrow> (\<exists>evs. Resolve env c = (evs, c, Some err)))"
  using assms by (simp add: Resolve_def Let_def)

theorem Resolve_lookup_failure_witness:
  "ParseIP offline (Host (Config resolved_client)) = None \<and>
   LookupIPAddr offline (Host (Config resolved_client)) = Inl (External ''no such host'') \<and>
   remote resolved_client = Some example_remote \<and>
   (\<exists>evs. Resolve offline resolved_client = (evs, resolved_client, None)) \<and>
   ParseIP offline (Host (Config example_client)) = None \<and>
   LookupIPAddr offline (Host (Config example_client)) = Inl (External ''no such host'') \<and>
   remote example_client = None \<and>
   (\<exists>evs. Resolve offline example_client = (evs, example_client, Some (External ''no such host'')))"
  using Resolve_lookup_failure [of offline resolved_client "External ''no such host''" example_remote]
    Resolve_lookup_failure [of offline example_client "External ''no such host''" example_remote]
  by (simp add: offline_def resolved_client_def example_client_def example_config_def)

text \<open>
  C9. When the host is not an IP literal and the lookup succeeds with no address, or with a
  first address whose IP is \<^verbatim>\<open>nil\<close>, \<open>Resolve\<close> returns an error that names the host, and the
  client, with its remote address and TLS server name, is returned as it was.
\<close>

theorem Resolve_no_address:
  assumes "ParseIP env (Host (Config c)) = None"
    and "LookupIPAddr env (Host (Config c)) = Inr addrs"
    and "addrs = [] \<or> IPAddr.IP (hd addrs) = None"
  shows "Resolve env c =
           ([LookupIPAddrCall (Host (Config c))], c,
            Some (ErrorString
                    ((if addrs = [] then ''dns lookup failed for '' else ''no IP found for '')
                     @ Host (Config c))))"
  using assms by (auto simp add: Resolve_def Let_def split: list.splits)

theorem Resolve_no_address_witness:
  "ParseIP empty_answer (Host (Config resolved_client)) = None \<and>
   LookupIPAddr empty_answer (Host (Config resolved_client)) = Inr [] \<and>
   Resolve empty_answer resolved_client =
     ([LookupIPAddrCall ''nl.hideservers.net''], resolved_client,
      Some (ErrorString ''dns lookup failed for nl.hideservers.net'')) \<and>
   ParseIP nil_answer (Host (Config resolved_client)) = None \<and>
   LookupIPAddr nil_answer (Host (Config resolved_client)) = Inr [\<lparr>IPAddr.IP = None, Zone = []\<rparr>] \<and>
   IPAddr.IP (hd [\<lparr>IPAddr.IP = None, Zone = []\<rparr>]) = None \<and>
   Resolve nil_answer resolved_client =
     ([LookupIPAddrCall ''nl.hideservers.net''], resolved_client,
      Some (ErrorString ''no IP found for nl.hideservers.net''))"
  using Resolve_no_address [of empty_answer resolved_client "[]"]
    Resolve_no_address [of nil_answer resolved_client "[\<lparr>IPAddr.IP = None, Zone = []\<rparr>]"]
  by (simp add: empty_answer_def nil_answer_def offline_def resolved_client_def
      example_client_def example_config_def)

end
